theory Spec2Isabelle
  imports Main
begin

section \<open>Order routes of the e-commerce backend\<close>

text \<open>
  A shallow embedding of \<^verbatim>\<open>src/routes/api/order-routes.ts\<close>: the six route handlers
  over an explicit store. Conventions of the model:
  \<^item> ids are natural numbers; prices, stocks and quantities are integers (the source
    computes on JavaScript numbers and validates none of them, so a quantity may be
    zero or negative);
  \<^item> the Product and User tables are maps from primary key to row, the Order and
    OrderItem tables are lists of rows in insertion order;
  \<^item> a handler returns the list of \<^verbatim>\<open>res.status(c).json(b)\<close> calls it makes, in the
    order it makes them, and the store it leaves. The first call on a response sends it
    to the client; a later call on the same response throws;
  \<^item> the persistence and mail calls return normally, so a \<^verbatim>\<open>catch\<close> block of the
    source is entered only where a call on the response throws. That happens in the
    last handler alone; the others make one call, on a response not yet sent;
  \<^item> the middleware (\<^verbatim>\<open>verifyToken\<close>, \<^verbatim>\<open>isAdmin\<close>) runs before a handler and is not
    part of it: the requester's id, email and role are arguments.
\<close>

subsection \<open>Rows\<close>

record product =
  price :: int
  stock :: int

record user =
  name :: string
  email :: string
  role :: string

record order =
  order_id :: nat
  userId :: nat
  totalPrice :: int
  status :: string

record orderItem =
  item_id :: nat
  orderId :: nat
  item_productId :: nat
  item_quantity :: int
  item_price :: int

text \<open>One element of \<^verbatim>\<open>req.body.products\<close>.\<close>

record req_product =
  productId :: nat
  quantity :: int

type_synonym mail = "string \<times> string \<times> string"

record store =
  products :: "nat \<rightharpoonup> product"
  users :: "nat \<rightharpoonup> user"
  orders :: "order list"
  orderItems :: "orderItem list"
  next_order_id :: nat
  next_item_id :: nat
  outbox :: "mail list"

subsection \<open>Response bodies\<close>

text \<open>
  An order as the eager-loading queries return it: the row, its owner reduced to id, name
  and email, and one line per OrderItem of the order whose product exists (the product,
  the quantity, and the price where the query asks for it).
\<close>

record order_view =
  view_order :: order
  view_user :: "(nat \<times> string \<times> string) option"
  view_products :: "(nat \<times> product \<times> int \<times> int option) list"

datatype body =
    ErrorJson string
  | OrderJson "order_view option"
  | OrdersJson "order_view list"
  | OrderRowJson order
  | DeletedJson string nat

type_synonym response = "nat \<times> body"

text \<open>
  The response object of the HTTP framework, which is not among the sources, as a list
  of the calls made on it so far. \<^verbatim>\<open>res.status(c).json(b)\<close> sends the response when
  none has been sent, and throws (headers already sent) when one has; \<open>res_json\<close>
  returns whether the call threw, and the calls including this one. The client
  receives the first call only; the later ones are the calls that threw.
\<close>

definition res_json :: "response \<Rightarrow> response list \<Rightarrow> bool \<times> response list" where
  "res_json r calls = (calls \<noteq> [], calls @ [r])"



subsection \<open>Template literals\<close>

fun show_nat :: "nat \<Rightarrow> string" where
  "show_nat n =
     (if n < 10 then [char_of (48 + n)]
      else show_nat (n div 10) @ [char_of (48 + n mod 10)])"

declare show_nat.simps [simp del]

definition show_int :: "int \<Rightarrow> string" where
  "show_int i = (if i < 0 then CHR ''-'' # show_nat (nat (- i)) else show_nat (nat i))"

subsection \<open>Persistence and mail\<close>

definition Product_findByPk :: "store \<Rightarrow> nat \<Rightarrow> product option" where
  "Product_findByPk s pid = products s pid"

definition Product_save :: "nat \<Rightarrow> product \<Rightarrow> store \<Rightarrow> store" where
  "Product_save pid p s = s\<lparr>products := (products s)(pid \<mapsto> p)\<rparr>"

definition User_findByPk :: "store \<Rightarrow> nat \<Rightarrow> user option" where
  "User_findByPk s uid = users s uid"

definition Order_findByPk :: "store \<Rightarrow> nat \<Rightarrow> order option" where
  "Order_findByPk s oid = find (\<lambda>row. order_id row = oid) (orders s)"

definition Order_save_status :: "nat \<Rightarrow> string \<Rightarrow> store \<Rightarrow> store" where
  "Order_save_status oid st s =
     s\<lparr>orders := map (\<lambda>row. if order_id row = oid then row\<lparr>status := st\<rparr> else row) (orders s)\<rparr>"

definition Order_destroy :: "nat \<Rightarrow> store \<Rightarrow> nat \<times> store" where
  "Order_destroy oid s =
     (length (filter (\<lambda>row. order_id row = oid) (orders s)),
      s\<lparr>orders := filter (\<lambda>row. order_id row \<noteq> oid) (orders s)\<rparr>)"

definition OrderItem_findAll :: "store \<Rightarrow> nat \<Rightarrow> orderItem list" where
  "OrderItem_findAll s oid = filter (\<lambda>it. orderId it = oid) (orderItems s)"

definition OrderItem_destroy :: "nat \<Rightarrow> store \<Rightarrow> store" where
  "OrderItem_destroy oid s = s\<lparr>orderItems := filter (\<lambda>it. orderId it \<noteq> oid) (orderItems s)\<rparr>"

text \<open>
  Modelled from the spec: the model layer (\<^verbatim>\<open>models/index\<close>) is not among the sources.
  \<^verbatim>\<open>create\<close> inserts a row under the next auto-increment key and returns it.
\<close>

definition Order_create :: "nat \<Rightarrow> int \<Rightarrow> string \<Rightarrow> store \<Rightarrow> order \<times> store" where
  "Order_create uid total_price st s =
     (let row = \<lparr>order_id = next_order_id s, userId = uid, totalPrice = total_price, status = st\<rparr>
      in (row, s\<lparr>orders := orders s @ [row], next_order_id := Suc (next_order_id s)\<rparr>))"

definition OrderItem_create :: "nat \<Rightarrow> nat \<Rightarrow> int \<Rightarrow> int \<Rightarrow> store \<Rightarrow> store" where
  "OrderItem_create oid pid q pr s =
     s\<lparr>orderItems := orderItems s @
          [\<lparr>item_id = next_item_id s, orderId = oid, item_productId = pid,
            item_quantity = q, item_price = pr\<rparr>],
       next_item_id := Suc (next_item_id s)\<rparr>"

text \<open>
  Modelled from the spec: the associations behind \<^verbatim>\<open>include\<close> are declared in the model
  layer, which is not among the sources. An order is returned with its owner (id, name,
  email) and its products with the quantity of the joining OrderItem; \<open>with_price\<close> adds
  the joining row's price, as the query of the create handler asks.
\<close>

definition include_view :: "bool \<Rightarrow> store \<Rightarrow> order \<Rightarrow> order_view" where
  "include_view with_price s row =
     \<lparr>view_order = row,
      view_user = map_option (\<lambda>u. (userId row, name u, email u)) (users s (userId row)),
      view_products =
        List.map_filter
          (\<lambda>it. if orderId it = order_id row
                then map_option
                       (\<lambda>p. (item_productId it, p, item_quantity it,
                             if with_price then Some (item_price it) else None))
                       (products s (item_productId it))
                else None)
          (orderItems s)\<rparr>"

text \<open>
  The result of \<^verbatim>\<open>findAll\<close> is an option so that the handler's test \<^verbatim>\<open>!orders\<close> has both
  of its branches; \<open>None\<close> stands for null or undefined.
\<close>

definition Order_findAll_include :: "store \<Rightarrow> order_view list option" where
  "Order_findAll_include s = Some (map (include_view False s) (orders s))"

definition Order_findAll_where_userId :: "store \<Rightarrow> nat \<Rightarrow> order_view list" where
  "Order_findAll_where_userId s uid =
     map (include_view False s) (filter (\<lambda>row. userId row = uid) (orders s))"

definition Order_findByPk_include :: "bool \<Rightarrow> store \<Rightarrow> nat \<Rightarrow> order_view option" where
  "Order_findByPk_include with_price s oid =
     map_option (include_view with_price s) (Order_findByPk s oid)"

definition sendEmail :: "string \<Rightarrow> string \<Rightarrow> string \<Rightarrow> store \<Rightarrow> store" where
  "sendEmail to subject txt s = s\<lparr>outbox := outbox s @ [(to, subject, txt)]\<rparr>"

subsection \<open>GET /\<close>

definition get_orders_respond :: "order_view list option \<Rightarrow> response list" where
  "get_orders_respond found =
     (case found of
        None \<Rightarrow> [(404, ErrorJson ''No orders found'')]
      | Some rows \<Rightarrow> [(200, OrdersJson rows)])"

definition get_orders :: "store \<Rightarrow> response list \<times> store" where
  "get_orders s = (get_orders_respond (Order_findAll_include s), s)"

subsection \<open>GET /:id\<close>

definition get_order :: "nat \<Rightarrow> store \<Rightarrow> response list \<times> store" where
  "get_order oid s =
     (case Order_findByPk_include False s oid of
        Some v \<Rightarrow> ([(200, OrderJson (Some v))], s)
      | None \<Rightarrow> ([(404, ErrorJson ''Order not found'')], s))"

subsection \<open>POST /\<close>

text \<open>
  The first loop: per requested product, skip it when it does not exist, answer 400 and
  return when its stock is below the quantity, otherwise add to the total and write the
  decremented stock back.
\<close>

fun reserve_stock :: "req_product list \<Rightarrow> int \<Rightarrow> store \<Rightarrow> (response + int) \<times> store" where
  "reserve_stock [] total_price s = (Inr total_price, s)"
| "reserve_stock (product # rest) total_price s =
     (case Product_findByPk s (productId product) of
        None \<Rightarrow> reserve_stock rest total_price s
      | Some productDetails \<Rightarrow>
          if stock productDetails < quantity product
          then (Inl (400, ErrorJson (''Insufficient stock for product ID '' @
                                      show_nat (productId product))), s)
          else reserve_stock rest
                 (total_price + price productDetails * quantity product)
                 (Product_save (productId product)
                    (productDetails\<lparr>stock := stock productDetails - quantity product\<rparr>) s))"

text \<open>The second loop: one OrderItem per requested product that exists.\<close>

fun create_items :: "nat \<Rightarrow> req_product list \<Rightarrow> store \<Rightarrow> store" where
  "create_items oid [] s = s"
| "create_items oid (product # rest) s =
     (case Product_findByPk s (productId product) of
        None \<Rightarrow> create_items oid rest s
      | Some productDetails \<Rightarrow>
          create_items oid rest
            (OrderItem_create oid (productId product) (quantity product)
               (price productDetails) s))"

definition post_order :: "nat \<Rightarrow> string \<Rightarrow> req_product list \<Rightarrow> store \<Rightarrow> response list \<times> store" where
  "post_order uid userEmail prods s =
     (case reserve_stock prods 0 s of
        (Inl resp, s1) \<Rightarrow> ([resp], s1)
      | (Inr total_price, s1) \<Rightarrow>
          (let (newOrder, s2) = Order_create uid total_price ''pending'' s1;
               s3 = create_items (order_id newOrder) prods s2;
               fullOrder = Order_findByPk_include True s3 (order_id newOrder);
               emailText = ''Your order has been placed successfully. Order ID: '' @
                           show_nat (order_id newOrder) @ ''. Total Price: $'' @
                           show_int total_price @ ''.''
           in ([(201, OrderJson fullOrder)],
               sendEmail userEmail ''Order Confirmation'' emailText s3)))"

subsection \<open>PUT /:id\<close>

definition put_order :: "nat \<Rightarrow> string \<Rightarrow> store \<Rightarrow> response list \<times> store" where
  "put_order oid st s =
     (case Order_findByPk s oid of
        Some row \<Rightarrow> ([(200, OrderRowJson (row\<lparr>status := st\<rparr>))], Order_save_status oid st s)
      | None \<Rightarrow> ([(404, ErrorJson ''Order not found'')], s))"

subsection \<open>DELETE /:id\<close>

fun restore_stock :: "orderItem list \<Rightarrow> store \<Rightarrow> store" where
  "restore_stock [] s = s"
| "restore_stock (orderItem # rest) s =
     (case Product_findByPk s (item_productId orderItem) of
        Some p \<Rightarrow>
          restore_stock rest
            (Product_save (item_productId orderItem)
               (p\<lparr>stock := stock p + item_quantity orderItem\<rparr>) s)
      | None \<Rightarrow> restore_stock rest s)"

definition delete_order :: "nat \<Rightarrow> store \<Rightarrow> response list \<times> store" where
  "delete_order oid s =
     (let found = Order_findByPk s oid;
          its = OrderItem_findAll s oid
      in case found of
           None \<Rightarrow> ([(404, ErrorJson ''Order not found'')], s)
         | Some row \<Rightarrow>
             (let s1 = restore_stock its s;
                  s2 = OrderItem_destroy oid s1;
                  (deleted, s3) = Order_destroy oid s2;
                  resp = (200, DeletedJson ''Order Deleted'' deleted)
              in case User_findByPk s3 (userId row) of
                   Some u \<Rightarrow>
                     ([resp],
                      sendEmail (email u) ''Order Cancellation''
                        (''Your order with ID '' @ show_nat oid @ '' has been cancelled.'') s3)
                 | None \<Rightarrow> ([resp], s3)))"

subsection \<open>GET /user-orders/:userId\<close>

text \<open>
  The 403 branch has no \<^verbatim>\<open>return\<close>: the query and the 200 call follow it in every
  case. All of it is inside the \<^verbatim>\<open>try\<close>: when a call on the response throws, the
  \<^verbatim>\<open>catch\<close> block makes the 500 call, on the same response.
\<close>

definition get_user_orders :: "nat \<Rightarrow> nat \<Rightarrow> string \<Rightarrow> store \<Rightarrow> response list \<times> store" where
  "get_user_orders uid requesterId requesterRole s =
     (let (threw1, calls1) =
            (if requesterId \<noteq> uid \<and> requesterRole \<noteq> ''admin''
             then res_json (403, ErrorJson ''Forbidden: not your order'') []
             else (False, []));
          (threw2, calls2) =
            (if threw1 then (True, calls1)
             else res_json (200, OrdersJson (Order_findAll_where_userId s uid)) calls1)
      in if threw2
         then (snd (res_json (500, ErrorJson ''Internal server error'') calls2), s)
         else (calls2, s))"

subsection \<open>The service as a whole\<close>

datatype request =
    ListOrders
  | GetOrder nat
  | CreateOrder nat string "req_product list"
  | UpdateOrderStatus nat string
  | DeleteOrder nat
  | ListOrdersForUser nat nat string

fun handle :: "request \<Rightarrow> store \<Rightarrow> response list \<times> store" where
  "handle ListOrders s = get_orders s"
| "handle (GetOrder oid) s = get_order oid s"
| "handle (CreateOrder uid userEmail prods) s = post_order uid userEmail prods s"
| "handle (UpdateOrderStatus oid st) s = put_order oid st s"
| "handle (DeleteOrder oid) s = delete_order oid s"
| "handle (ListOrdersForUser uid requesterId requesterRole) s =
     get_user_orders uid requesterId requesterRole s"

text \<open>Requests served one after the other.\<close>

fun run :: "request list \<Rightarrow> store \<Rightarrow> store" where
  "run [] s = s"
| "run (r # rs) s = run rs (snd (handle r s))"

subsection \<open>A store to run the handlers on\<close>

text \<open>
  Two products, one user, and one pending order of three units of product 1.
\<close>

definition shop :: store where
  "shop =
     \<lparr>products = [1 \<mapsto> \<lparr>price = 10, stock = 5\<rparr>, 2 \<mapsto> \<lparr>price = 7, stock = 1\<rparr>],
      users = [7 \<mapsto> \<lparr>name = ''ann'', email = ''ann@example.org'', role = ''user''\<rparr>],
      orders = [\<lparr>order_id = 1, userId = 7, totalPrice = 30, status = ''pending''\<rparr>],
      orderItems = [\<lparr>item_id = 1, orderId = 1, item_productId = 1, item_quantity = 3,
                     item_price = 10\<rparr>],
      next_order_id = 2, next_item_id = 2, outbox = []\<rparr>"

subsection \<open>Quantities the claims speak of\<close>

text \<open>
  What a request asks of one product: the sum of the quantities of its items that name
  the product.
\<close>

definition demand :: "nat \<Rightarrow> req_product list \<Rightarrow> int" where
  "demand pid prods = sum_list (map quantity (filter (\<lambda>p. productId p = pid) prods))"

text \<open>
  What a request costs: price times quantity, summed over the items whose product exists.
\<close>

definition charge :: "(nat \<rightharpoonup> product) \<Rightarrow> req_product list \<Rightarrow> int" where
  "charge ps prods =
     sum_list (map (\<lambda>p. case ps (productId p) of None \<Rightarrow> 0
                         | Some pd \<Rightarrow> price pd * quantity p) prods)"

text \<open>
  An item is in stock, after the items \<open>earlier\<close> of the same request, when its product
  does not exist or has at least the item's quantity left once the earlier items have
  taken theirs. This is the stock the handler reads when it reaches the item.
\<close>

definition in_stock :: "(nat \<rightharpoonup> product) \<Rightarrow> req_product list \<Rightarrow> req_product \<Rightarrow> bool" where
  "in_stock ps earlier p =
     (case ps (productId p) of None \<Rightarrow> True
      | Some pd \<Rightarrow> quantity p \<le> stock pd - demand (productId p) earlier)"

text \<open>Every existing product's stock moved by an amount that depends on the product.\<close>

definition shift_stock :: "(nat \<Rightarrow> int) \<Rightarrow> (nat \<rightharpoonup> product) \<Rightarrow> (nat \<rightharpoonup> product)" where
  "shift_stock d ps = (\<lambda>pid. map_option (\<lambda>pd. pd\<lparr>stock := stock pd + d pid\<rparr>) (ps pid))"

text \<open>
  What deleting an order gives back to one product: the sum of the quantities of the
  order's items that name the product.
\<close>

definition restored :: "nat \<Rightarrow> orderItem list \<Rightarrow> int" where
  "restored pid its = sum_list (map item_quantity (filter (\<lambda>it. item_productId it = pid) its))"

text \<open>The invariant of the data model: no product has a negative stock.\<close>

definition stock_ok :: "store \<Rightarrow> bool" where
  "stock_ok s = (\<forall>pid pd. products s pid = Some pd \<longrightarrow> 0 \<le> stock pd)"

text \<open>
  No stored OrderItem has a negative quantity, and no item of a create request has one.
  The handlers check neither.
\<close>

definition quantities_ok :: "store \<Rightarrow> bool" where
  "quantities_ok s = (\<forall>it \<in> set (orderItems s). 0 \<le> item_quantity it)"

fun request_ok :: "request \<Rightarrow> bool" where
  "request_ok (CreateOrder uid userEmail prods) = (\<forall>p \<in> set prods. 0 \<le> quantity p)"
| "request_ok r = True"

text \<open>
  The store \<open>shop\<close> after a create request with two items of one unit each for product 1:
  order 2 has two OrderItems for the same product.
\<close>

definition shop_two_lines :: store where
  "shop_two_lines =
     snd (post_order 7 ''ann@example.org''
            [\<lparr>productId = 1, quantity = 1\<rparr>, \<lparr>productId = 1, quantity = 1\<rparr>] shop)"

section \<open>Basic facts\<close>

lemma view_order_include_view: "view_order (include_view b s row) = row"
  by (simp add: include_view_def)

lemma findByPk_None_iff:
  "Order_findByPk s oid = None \<longleftrightarrow> oid \<notin> order_id ` set (orders s)"
  by (auto simp: Order_findByPk_def find_None_iff)

lemma find_save_status:
  "find (\<lambda>r. order_id r = oid)
     (map (\<lambda>r. if order_id r = oid then r\<lparr>status := st\<rparr> else r) xs) =
   map_option (\<lambda>r. r\<lparr>status := st\<rparr>) (find (\<lambda>r. order_id r = oid) xs)"
  by (induction xs) auto

lemma get_user_orders_permitted:
  assumes "requesterId = uid \<or> requesterRole = ''admin''"
  shows "get_user_orders uid requesterId requesterRole s =
           ([(200, OrdersJson (Order_findAll_where_userId s uid))], s)"
  using assms by (auto simp: get_user_orders_def res_json_def)

subsection \<open>The two loops of the create handler\<close>

lemma demand_Nil [simp]: "demand pid [] = 0"
  by (simp add: demand_def)

lemma demand_Cons [simp]:
  "demand pid (p # prods) = (if productId p = pid then quantity p else 0) + demand pid prods"
  by (simp add: demand_def)

lemma charge_Nil [simp]: "charge ps [] = 0"
  by (simp add: charge_def)

lemma charge_Cons [simp]:
  "charge ps (p # prods) =
     (case ps (productId p) of None \<Rightarrow> 0 | Some pd \<Rightarrow> price pd * quantity p) + charge ps prods"
  by (simp add: charge_def)

lemma charge_cong_price:
  assumes "\<And>pid. map_option price (ps' pid) = map_option price (ps pid)"
  shows "charge ps' prods = charge ps prods"
proof (induction prods)
  case Nil
  show ?case by simp
next
  case (Cons p prods)
  from assms [of "productId p"] Cons show ?case
    by (auto split: option.splits)
qed

lemma shift_stock_zero [simp]: "shift_stock (\<lambda>pid. 0) ps = ps"
  by (rule ext) (simp add: shift_stock_def option.map_ident)

lemma reserve_stock_append:
  assumes "\<forall>k<length pre. in_stock (products s) (take k pre) (pre ! k)"
  shows "reserve_stock (pre @ rest) t s =
         reserve_stock rest (t + charge (products s) pre)
           (s\<lparr>products := shift_stock (\<lambda>pid. - demand pid pre) (products s)\<rparr>)"
  using assms
proof (induction pre arbitrary: s t)
  case Nil
  show ?case by simp
next
  case (Cons p pre)
  from Cons.prems have here: "in_stock (products s) [] p"
    and later: "\<forall>k<length pre. in_stock (products s) (p # take k pre) (pre ! k)"
    by (auto simp: All_less_Suc2)
  show ?case
  proof (cases "products s (productId p)")
    case None
    have "\<forall>k<length pre. in_stock (products s) (take k pre) (pre ! k)"
    proof (intro allI impI)
      fix k assume "k < length pre"
      with later have "in_stock (products s) (p # take k pre) (pre ! k)" by simp
      with None show "in_stock (products s) (take k pre) (pre ! k)"
        by (cases "productId p = productId (pre ! k)")
           (auto simp: in_stock_def split: option.splits)
    qed
    from Cons.IH [OF this, of t]
    have "reserve_stock (pre @ rest) t s =
          reserve_stock rest (t + charge (products s) pre)
            (s\<lparr>products := shift_stock (\<lambda>pid. - demand pid pre) (products s)\<rparr>)" .
    moreover have "shift_stock (\<lambda>pid. - demand pid (p # pre)) (products s) =
                   shift_stock (\<lambda>pid. - demand pid pre) (products s)"
      using None by (auto simp: shift_stock_def fun_eq_iff)
    ultimately show ?thesis
      using None by (simp add: Product_findByPk_def)
  next
    case (Some pd)
    let ?s1 = "Product_save (productId p) (pd\<lparr>stock := stock pd - quantity p\<rparr>) s"
    from here Some have enough: "\<not> stock pd < quantity p"
      by (simp add: in_stock_def)
    have "\<forall>k<length pre. in_stock (products ?s1) (take k pre) (pre ! k)"
    proof (intro allI impI)
      fix k assume "k < length pre"
      with later have "in_stock (products s) (p # take k pre) (pre ! k)" by simp
      with Some show "in_stock (products ?s1) (take k pre) (pre ! k)"
        by (cases "productId p = productId (pre ! k)")
           (auto simp: in_stock_def Product_save_def split: option.splits)
    qed
    from Cons.IH [OF this, of "t + price pd * quantity p"]
    have "reserve_stock (pre @ rest) (t + price pd * quantity p) ?s1 =
          reserve_stock rest (t + price pd * quantity p + charge (products ?s1) pre)
            (?s1\<lparr>products := shift_stock (\<lambda>pid. - demand pid pre) (products ?s1)\<rparr>)" .
    moreover have "charge (products ?s1) pre = charge (products s) pre"
      using Some by (intro charge_cong_price) (simp add: Product_save_def)
    moreover have "?s1\<lparr>products := shift_stock (\<lambda>pid. - demand pid pre) (products ?s1)\<rparr> =
                   s\<lparr>products := shift_stock (\<lambda>pid. - demand pid (p # pre)) (products s)\<rparr>"
      using Some by (auto simp: shift_stock_def Product_save_def fun_eq_iff)
    ultimately show ?thesis
      using Some enough by (simp add: Product_findByPk_def add.assoc)
  qed
qed

lemma create_items_keeps:
  "products (create_items oid prods s) = products s \<and>
   users (create_items oid prods s) = users s \<and>
   orders (create_items oid prods s) = orders s \<and>
   next_order_id (create_items oid prods s) = next_order_id s \<and>
   outbox (create_items oid prods s) = outbox s"
  by (induction prods arbitrary: s)
     (auto simp: Product_findByPk_def OrderItem_create_def split: option.splits)

lemma post_order_reserved:
  assumes "reserve_stock prods 0 s = (Inr t, s1)"
  shows "map fst (fst (post_order uid userEmail prods s)) = [201]"
    and "orders (snd (post_order uid userEmail prods s)) =
           orders s1 @ [\<lparr>order_id = next_order_id s1, userId = uid, totalPrice = t,
                         status = ''pending''\<rparr>]"
    and "products (snd (post_order uid userEmail prods s)) = products s1"
  using assms
  by (simp_all add: post_order_def Order_create_def sendEmail_def Let_def create_items_keeps)

lemma post_order_refused:
  assumes "reserve_stock prods 0 s = (Inl resp, s1)"
  shows "post_order uid userEmail prods s = ([resp], s1)"
  using assms by (simp add: post_order_def)

lemma reserve_stock_dom:
  "(products (snd (reserve_stock prods t s)) pid = None) = (products s pid = None)"
  by (induction prods arbitrary: s t)
     (auto simp: Product_findByPk_def Product_save_def split: option.splits)

lemma reserve_stock_keeps:
  "orderItems (snd (reserve_stock prods t s)) = orderItems s \<and>
   orders (snd (reserve_stock prods t s)) = orders s \<and>
   next_order_id (snd (reserve_stock prods t s)) = next_order_id s"
  by (induction prods arbitrary: s t)
     (auto simp: Product_findByPk_def Product_save_def split: option.splits)

lemma reserve_stock_existing:
  assumes "\<And>pid. (products s' pid = None) = (products s pid = None)"
  shows "reserve_stock (filter (\<lambda>p. products s (productId p) \<noteq> None) prods) t s' =
         reserve_stock prods t s'"
  using assms
proof (induction prods arbitrary: s' t)
  case Nil
  show ?case by simp
next
  case (Cons p prods)
  show ?case
  proof (cases "products s' (productId p)")
    case None
    with Cons.prems have "products s (productId p) = None" by simp
    with None Cons.IH [OF Cons.prems] show ?thesis
      by (simp add: Product_findByPk_def)
  next
    case (Some pd)
    with Cons.prems [of "productId p"] have ex: "products s (productId p) \<noteq> None" by simp
    let ?s1 = "Product_save (productId p) (pd\<lparr>stock := stock pd - quantity p\<rparr>) s'"
    have "\<And>pid. (products ?s1 pid = None) = (products s pid = None)"
      using Cons.prems Some ex by (auto simp: Product_save_def)
    from Cons.IH [OF this] Some ex show ?thesis
      by (simp add: Product_findByPk_def)
  qed
qed

lemma create_items_existing:
  assumes "\<And>pid. (products s' pid = None) = (products s pid = None)"
  shows "create_items oid (filter (\<lambda>p. products s (productId p) \<noteq> None) prods) s' =
         create_items oid prods s'"
  using assms
proof (induction prods arbitrary: s')
  case Nil
  show ?case by simp
next
  case (Cons p prods)
  show ?case
  proof (cases "products s' (productId p)")
    case None
    with Cons.prems have "products s (productId p) = None" by simp
    with None Cons.IH [OF Cons.prems] show ?thesis
      by (simp add: Product_findByPk_def)
  next
    case (Some pd)
    with Cons.prems [of "productId p"] have ex: "products s (productId p) \<noteq> None" by simp
    let ?s1 = "OrderItem_create oid (productId p) (quantity p) (price pd) s'"
    have "\<And>pid. (products ?s1 pid = None) = (products s pid = None)"
      using Cons.prems by (simp add: OrderItem_create_def)
    from Cons.IH [OF this] Some ex show ?thesis
      by (simp add: Product_findByPk_def)
  qed
qed

lemma create_items_products:
  "item_productId ` set (orderItems (create_items oid prods s)) \<subseteq>
   item_productId ` set (orderItems s) \<union> dom (products s)"
proof (induction prods arbitrary: s)
  case Nil
  show ?case by simp
next
  case (Cons p prods)
  show ?case
  proof (cases "products s (productId p)")
    case None
    with Cons.IH [of s] show ?thesis by (simp add: Product_findByPk_def)
  next
    case (Some pd)
    with Cons.IH [of "OrderItem_create oid (productId p) (quantity p) (price pd) s"]
    show ?thesis
      by (auto simp: Product_findByPk_def OrderItem_create_def)
  qed
qed

lemma show_nat_1: "show_nat (Suc 0) = ''1''"
  by code_simp

lemma shop_product_1: "products shop (Suc 0) = Some \<lparr>price = 10, stock = 5\<rparr>"
  by (simp add: shop_def)

subsection \<open>The loop of the delete handler\<close>

lemma restored_Nil [simp]: "restored pid [] = 0"
  by (simp add: restored_def)

lemma restored_Cons [simp]:
  "restored pid (it # its) =
     (if item_productId it = pid then item_quantity it else 0) + restored pid its"
  by (simp add: restored_def)

lemma restore_stock_shift:
  "restore_stock its s = s\<lparr>products := shift_stock (\<lambda>pid. restored pid its) (products s)\<rparr>"
proof (induction its arbitrary: s)
  case Nil
  show ?case by simp
next
  case (Cons it its)
  show ?case
  proof (cases "products s (item_productId it)")
    case None
    then have "shift_stock (\<lambda>pid. restored pid (it # its)) (products s) =
               shift_stock (\<lambda>pid. restored pid its) (products s)"
      by (auto simp: shift_stock_def fun_eq_iff)
    with None Cons.IH [of s] show ?thesis
      by (simp add: Product_findByPk_def)
  next
    case (Some pd)
    let ?s1 = "Product_save (item_productId it) (pd\<lparr>stock := stock pd + item_quantity it\<rparr>) s"
    have "?s1\<lparr>products := shift_stock (\<lambda>pid. restored pid its) (products ?s1)\<rparr> =
          s\<lparr>products := shift_stock (\<lambda>pid. restored pid (it # its)) (products s)\<rparr>"
      using Some by (auto simp: shift_stock_def Product_save_def fun_eq_iff)
    with Some Cons.IH [of ?s1] show ?thesis
      by (simp add: Product_findByPk_def)
  qed
qed

lemma delete_order_found:
  assumes "Order_findByPk s oid = Some row"
  shows "fst (delete_order oid s) =
           [(200, DeletedJson ''Order Deleted''
                    (length (filter (\<lambda>r. order_id r = oid) (orders s))))]"
    and "products (snd (delete_order oid s)) =
           shift_stock (\<lambda>pid. restored pid (OrderItem_findAll s oid)) (products s)"
    and "orderItems (snd (delete_order oid s)) = filter (\<lambda>it. orderId it \<noteq> oid) (orderItems s)"
    and "orders (snd (delete_order oid s)) = filter (\<lambda>r. order_id r \<noteq> oid) (orders s)"
  using assms
  by (auto simp: delete_order_def Let_def restore_stock_shift OrderItem_destroy_def
        Order_destroy_def User_findByPk_def sendEmail_def split: option.splits)

subsection \<open>Stocks and quantities that stay non-negative\<close>

lemma restored_nonneg:
  assumes "\<forall>it \<in> set its. 0 \<le> item_quantity it"
  shows "0 \<le> restored pid its"
  using assms by (induction its) auto

lemma reserve_stock_stock_ok:
  "stock_ok s \<Longrightarrow> stock_ok (snd (reserve_stock prods t s))"
proof (induction prods arbitrary: s t)
  case Nil
  then show ?case by simp
next
  case (Cons p prods)
  show ?case
  proof (cases "products s (productId p)")
    case None
    with Cons show ?thesis by (simp add: Product_findByPk_def)
  next
    case (Some pd)
    show ?thesis
    proof (cases "stock pd < quantity p")
      case True
      with Some Cons.prems show ?thesis by (simp add: Product_findByPk_def)
    next
      case False
      let ?s1 = "Product_save (productId p) (pd\<lparr>stock := stock pd - quantity p\<rparr>) s"
      from False Cons.prems have "stock_ok ?s1"
        by (auto simp: stock_ok_def Product_save_def)
      from Cons.IH [OF this] Some False show ?thesis
        by (simp add: Product_findByPk_def)
    qed
  qed
qed

lemma create_items_quantities_ok:
  assumes "quantities_ok s" and "\<forall>p \<in> set prods. 0 \<le> quantity p"
  shows "quantities_ok (create_items oid prods s)"
  using assms
proof (induction prods arbitrary: s)
  case Nil
  then show ?case by simp
next
  case (Cons p prods)
  show ?case
  proof (cases "products s (productId p)")
    case None
    with Cons show ?thesis by (simp add: Product_findByPk_def)
  next
    case (Some pd)
    let ?s1 = "OrderItem_create oid (productId p) (quantity p) (price pd) s"
    from Cons.prems have "quantities_ok ?s1"
      by (auto simp: quantities_ok_def OrderItem_create_def)
    with Cons.IH [of ?s1] Cons.prems(2) Some show ?thesis
      by (simp add: Product_findByPk_def)
  qed
qed

lemma post_order_stock_ok:
  assumes "stock_ok s"
  shows "stock_ok (snd (post_order uid userEmail prods s))"
proof -
  obtain res s1 where rs: "reserve_stock prods 0 s = (res, s1)"
    by (cases "reserve_stock prods 0 s")
  with reserve_stock_stock_ok [OF assms, of prods 0] have ok1: "stock_ok s1" by simp
  show ?thesis
  proof (cases res)
    case (Inl resp)
    with rs ok1 show ?thesis by (simp add: post_order_def)
  next
    case (Inr t)
    with rs have "products (snd (post_order uid userEmail prods s)) = products s1"
      by (simp add: post_order_reserved)
    with ok1 show ?thesis by (simp add: stock_ok_def)
  qed
qed

lemma post_order_quantities_ok:
  assumes "quantities_ok s" and "\<forall>p \<in> set prods. 0 \<le> quantity p"
  shows "quantities_ok (snd (post_order uid userEmail prods s))"
proof -
  obtain res s1 where rs: "reserve_stock prods 0 s = (res, s1)"
    by (cases "reserve_stock prods 0 s")
  with reserve_stock_keeps [of prods 0 s] have "orderItems s1 = orderItems s" by simp
  with assms(1) have ok1: "quantities_ok s1" by (simp add: quantities_ok_def)
  show ?thesis
  proof (cases res)
    case (Inl resp)
    with rs ok1 show ?thesis by (simp add: post_order_def)
  next
    case (Inr t)
    let ?s2 = "snd (Order_create uid t ''pending'' s1)"
    from ok1 have "quantities_ok ?s2"
      by (simp add: quantities_ok_def Order_create_def Let_def)
    from create_items_quantities_ok [OF this assms(2), of "next_order_id s1"]
    have "quantities_ok (create_items (next_order_id s1) prods ?s2)" .
    with Inr rs show ?thesis
      by (simp add: post_order_def Let_def split_beta Order_create_def sendEmail_def
            quantities_ok_def)
  qed
qed

lemma delete_order_stock_ok:
  assumes "stock_ok s" and "quantities_ok s"
  shows "stock_ok (snd (delete_order oid s))"
proof (cases "Order_findByPk s oid")
  case None
  with assms(1) show ?thesis by (simp add: delete_order_def Let_def)
next
  case (Some row)
  from assms(2) have "\<forall>it \<in> set (OrderItem_findAll s oid). 0 \<le> item_quantity it"
    by (simp add: quantities_ok_def OrderItem_findAll_def)
  then have "\<And>pid. 0 \<le> restored pid (OrderItem_findAll s oid)"
    by (rule restored_nonneg)
  with assms(1) show ?thesis
    by (fastforce simp: stock_ok_def delete_order_found(2) [OF Some] shift_stock_def)
qed

lemma delete_order_quantities_ok:
  assumes "quantities_ok s"
  shows "quantities_ok (snd (delete_order oid s))"
proof (cases "Order_findByPk s oid")
  case None
  with assms show ?thesis by (simp add: delete_order_def Let_def)
next
  case (Some row)
  with assms show ?thesis
    by (simp add: quantities_ok_def delete_order_found(3) [OF Some])
qed

lemma handle_reads:
  "products (snd (handle ListOrders s)) = products s"
  "products (snd (handle (GetOrder oid) s)) = products s"
  "products (snd (handle (UpdateOrderStatus oid st) s)) = products s"
  "products (snd (handle (ListOrdersForUser uid requesterId requesterRole) s)) = products s"
  "orderItems (snd (handle ListOrders s)) = orderItems s"
  "orderItems (snd (handle (GetOrder oid) s)) = orderItems s"
  "orderItems (snd (handle (UpdateOrderStatus oid st) s)) = orderItems s"
  "orderItems (snd (handle (ListOrdersForUser uid requesterId requesterRole) s)) = orderItems s"
  by (simp_all add: get_orders_def get_order_def put_order_def get_user_orders_def
        res_json_def Order_save_status_def split: option.splits)

lemma handle_invariant:
  assumes "stock_ok s" and "quantities_ok s" and "request_ok r"
  shows "stock_ok (snd (handle r s)) \<and> quantities_ok (snd (handle r s))"
proof (cases r)
  case (CreateOrder uid userEmail prods)
  with assms show ?thesis
    by (simp add: post_order_stock_ok post_order_quantities_ok)
next
  case (DeleteOrder oid)
  with assms show ?thesis
    by (simp add: delete_order_stock_ok delete_order_quantities_ok)
next
  case ListOrders
  with assms show ?thesis
    by (simp add: stock_ok_def quantities_ok_def handle_reads del: handle.simps)
next
  case (GetOrder oid)
  with assms show ?thesis
    by (simp add: stock_ok_def quantities_ok_def handle_reads del: handle.simps)
next
  case (UpdateOrderStatus oid st)
  with assms show ?thesis
    by (simp add: stock_ok_def quantities_ok_def handle_reads del: handle.simps)
next
  case (ListOrdersForUser uid requesterId requesterRole)
  with assms show ?thesis
    by (simp add: stock_ok_def quantities_ok_def handle_reads del: handle.simps)
qed

section \<open>The claims\<close>

subsection \<open>Creating an order\<close>

text \<open>
  Claim C1, amended. When every item of a create request is in stock as the handler
  reaches it, the call answers 201 and appends an Order with status "pending" whose
  total price is the sum of price times quantity over the items whose product exists,
  and every product's stock falls by the sum of the quantities of the request's items
  that name it. For a product named by one item that is the item's quantity.
\<close>

theorem post_order_in_stock:
  assumes "\<forall>k<length prods. in_stock (products s) (take k prods) (prods ! k)"
  shows "map fst (fst (post_order uid userEmail prods s)) = [201] \<and>
         orders (snd (post_order uid userEmail prods s)) =
           orders s @ [\<lparr>order_id = next_order_id s, userId = uid,
                        totalPrice = charge (products s) prods, status = ''pending''\<rparr>] \<and>
         products (snd (post_order uid userEmail prods s)) pid =
           map_option (\<lambda>pd. pd\<lparr>stock := stock pd - demand pid prods\<rparr>) (products s pid)"
proof -
  from reserve_stock_append [OF assms, of "[]" 0]
  have r: "reserve_stock prods 0 s =
        (Inr (charge (products s) prods),
         s\<lparr>products := shift_stock (\<lambda>pid. - demand pid prods) (products s)\<rparr>)"
    by simp
  show ?thesis
    by (simp add: post_order_reserved [OF r] shift_stock_def)
qed

theorem post_order_in_stock_witness:
  "map fst (fst (post_order 7 ''ann@example.org''
      [\<lparr>productId = 1, quantity = 3\<rparr>, \<lparr>productId = 9, quantity = 4\<rparr>,
       \<lparr>productId = 2, quantity = 1\<rparr>] shop)) = [201] \<and>
   orders (snd (post_order 7 ''ann@example.org''
      [\<lparr>productId = 1, quantity = 3\<rparr>, \<lparr>productId = 9, quantity = 4\<rparr>,
       \<lparr>productId = 2, quantity = 1\<rparr>] shop)) =
     [\<lparr>order_id = 1, userId = 7, totalPrice = 30, status = ''pending''\<rparr>,
      \<lparr>order_id = 2, userId = 7, totalPrice = 37, status = ''pending''\<rparr>] \<and>
   products (snd (post_order 7 ''ann@example.org''
      [\<lparr>productId = 1, quantity = 3\<rparr>, \<lparr>productId = 9, quantity = 4\<rparr>,
       \<lparr>productId = 2, quantity = 1\<rparr>] shop)) 1 = Some \<lparr>price = 10, stock = 2\<rparr>"
proof -
  let ?prods = "[\<lparr>productId = 1, quantity = 3\<rparr>, \<lparr>productId = 9, quantity = 4\<rparr>,
                 \<lparr>productId = 2, quantity = 1\<rparr>]"
  have h: "\<forall>k<length ?prods. in_stock (products shop) (take k ?prods) (?prods ! k)"
    by (simp add: All_less_Suc2 in_stock_def shop_def)
  from post_order_in_stock [OF h, of 7 "''ann@example.org''" 1] show ?thesis
    by (simp add: shop_def)
qed

text \<open>
  As the claim words it, a product's stock falls by the quantity of the item that names
  it. Product 1 has stock 5; a request with two items of one unit each for product 1 is
  accepted and leaves stock 3, which is neither item's quantity below 5.
\<close>

theorem post_order_stock_counterexample:
  "map fst (fst (post_order 7 ''ann@example.org''
      [\<lparr>productId = 1, quantity = 1\<rparr>, \<lparr>productId = 1, quantity = 1\<rparr>] shop)) = [201] \<and>
   products shop 1 = Some \<lparr>price = 10, stock = 5\<rparr> \<and>
   products (snd (post_order 7 ''ann@example.org''
      [\<lparr>productId = 1, quantity = 1\<rparr>, \<lparr>productId = 1, quantity = 1\<rparr>] shop)) 1 =
     Some \<lparr>price = 10, stock = 3\<rparr> \<and>
   (3::int) \<noteq> 5 - 1"
  by (simp add: post_order_def Product_findByPk_def Product_save_def Order_create_def
        OrderItem_create_def sendEmail_def shop_def Let_def)

subsection \<open>Creating an order without enough stock\<close>

text \<open>
  Claim C2. Let item \<open>k\<close> be the first item of a create request that the handler finds
  with an existing product and a stock below the item's quantity, the stock being what
  the earlier items of the request have left. Then the call answers 400 with
  "Insufficient stock for product ID" and that product's id, the Order and OrderItem
  tables are as before, and every product's stock stays reduced by what the items
  before \<open>k\<close> took: nothing is rolled back.
\<close>

theorem post_order_insufficient:
  assumes "k < length prods"
    and "\<forall>j<k. in_stock (products s) (take j prods) (prods ! j)"
    and "products s (productId (prods ! k)) = Some pd"
    and "stock pd - demand (productId (prods ! k)) (take k prods) < quantity (prods ! k)"
  shows "fst (post_order uid userEmail prods s) =
           [(400, ErrorJson (''Insufficient stock for product ID '' @
                             show_nat (productId (prods ! k))))] \<and>
         orders (snd (post_order uid userEmail prods s)) = orders s \<and>
         orderItems (snd (post_order uid userEmail prods s)) = orderItems s \<and>
         products (snd (post_order uid userEmail prods s)) pid =
           map_option (\<lambda>pd. pd\<lparr>stock := stock pd - demand pid (take k prods)\<rparr>)
             (products s pid)"
proof -
  let ?pre = "take k prods"
  let ?s1 = "s\<lparr>products := shift_stock (\<lambda>pid. - demand pid ?pre) (products s)\<rparr>"
  from assms(1) have split: "prods = ?pre @ prods ! k # drop (Suc k) prods"
    by (simp add: id_take_nth_drop)
  from assms(1,2) have "\<forall>j<length ?pre. in_stock (products s) (take j ?pre) (?pre ! j)"
    by (simp add: min_def)
  from reserve_stock_append [OF this, of "prods ! k # drop (Suc k) prods" 0]
  have "reserve_stock prods 0 s =
        reserve_stock (prods ! k # drop (Suc k) prods) (0 + charge (products s) ?pre) ?s1"
    using split by simp
  also have "\<dots> = (Inl (400, ErrorJson (''Insufficient stock for product ID '' @
                                        show_nat (productId (prods ! k)))), ?s1)"
    using assms(3,4) by (simp add: Product_findByPk_def shift_stock_def)
  finally have r: "reserve_stock prods 0 s =
      (Inl (400, ErrorJson (''Insufficient stock for product ID '' @
                            show_nat (productId (prods ! k)))), ?s1)" .
  show ?thesis
    by (simp add: post_order_refused [OF r] shift_stock_def)
qed

theorem post_order_insufficient_witness:
  "fst (post_order 7 ''ann@example.org''
      [\<lparr>productId = 1, quantity = 3\<rparr>, \<lparr>productId = 1, quantity = 3\<rparr>,
       \<lparr>productId = 2, quantity = 100\<rparr>] shop) =
     [(400, ErrorJson ''Insufficient stock for product ID 1'')] \<and>
   orders (snd (post_order 7 ''ann@example.org''
      [\<lparr>productId = 1, quantity = 3\<rparr>, \<lparr>productId = 1, quantity = 3\<rparr>,
       \<lparr>productId = 2, quantity = 100\<rparr>] shop)) = orders shop \<and>
   orderItems (snd (post_order 7 ''ann@example.org''
      [\<lparr>productId = 1, quantity = 3\<rparr>, \<lparr>productId = 1, quantity = 3\<rparr>,
       \<lparr>productId = 2, quantity = 100\<rparr>] shop)) = orderItems shop \<and>
   products (snd (post_order 7 ''ann@example.org''
      [\<lparr>productId = 1, quantity = 3\<rparr>, \<lparr>productId = 1, quantity = 3\<rparr>,
       \<lparr>productId = 2, quantity = 100\<rparr>] shop)) 1 = Some \<lparr>price = 10, stock = 2\<rparr>"
proof -
  let ?prods = "[\<lparr>productId = 1, quantity = 3\<rparr>, \<lparr>productId = 1, quantity = 3\<rparr>,
                 \<lparr>productId = 2, quantity = 100\<rparr>]"
  have k: "1 < length ?prods" by simp
  have h: "\<forall>j<1. in_stock (products shop) (take j ?prods) (?prods ! j)"
    by (simp add: in_stock_def shop_def)
  have p: "products shop (productId (?prods ! 1)) = Some \<lparr>price = 10, stock = 5\<rparr>"
    by (simp add: shop_def)
  have q: "stock \<lparr>price = 10, stock = 5\<rparr> - demand (productId (?prods ! 1)) (take 1 ?prods)
           < quantity (?prods ! 1)"
    by simp
  from post_order_insufficient [OF k h p q, of 7 "''ann@example.org''" 1] show ?thesis
    by (simp add: shop_product_1 show_nat_1)
qed

subsection \<open>Listing a user's orders\<close>




subsection \<open>Deleting an order\<close>

text \<open>
  Claim C4, amended. Deleting an existing order answers 200 with the number of Order rows
  removed. Afterwards every product that exists has its former stock plus the sum of the
  quantities of that order's OrderItems that name it (for a product named by one
  OrderItem, that item's quantity), no OrderItem of the order is left, and no Order row
  with that id is left.
\<close>

theorem delete_order_restores:
  assumes "Order_findByPk s oid = Some row"
  shows "fst (delete_order oid s) =
           [(200, DeletedJson ''Order Deleted''
                    (length (filter (\<lambda>r. order_id r = oid) (orders s))))] \<and>
         products (snd (delete_order oid s)) pid =
           map_option (\<lambda>pd. pd\<lparr>stock := stock pd + restored pid (OrderItem_findAll s oid)\<rparr>)
             (products s pid) \<and>
         OrderItem_findAll (snd (delete_order oid s)) oid = [] \<and>
         orderItems (snd (delete_order oid s)) =
           filter (\<lambda>it. orderId it \<noteq> oid) (orderItems s) \<and>
         Order_findByPk (snd (delete_order oid s)) oid = None \<and>
         orders (snd (delete_order oid s)) = filter (\<lambda>r. order_id r \<noteq> oid) (orders s)"
  by (auto simp: delete_order_found [OF assms] shift_stock_def OrderItem_findAll_def
        findByPk_None_iff)

theorem delete_order_restores_witness:
  "fst (delete_order 1 shop) = [(200, DeletedJson ''Order Deleted'' 1)] \<and>
   products shop 1 = Some \<lparr>price = 10, stock = 5\<rparr> \<and>
   products (snd (delete_order 1 shop)) 1 = Some \<lparr>price = 10, stock = 8\<rparr> \<and>
   orderItems (snd (delete_order 1 shop)) = [] \<and>
   orders (snd (delete_order 1 shop)) = []"
proof -
  have a: "Order_findByPk shop 1 =
      Some \<lparr>order_id = 1, userId = 7, totalPrice = 30, status = ''pending''\<rparr>"
    by (simp add: Order_findByPk_def shop_def)
  from delete_order_restores [OF a, of 1] show ?thesis
    by (simp add: shop_def OrderItem_findAll_def)
qed

text \<open>
  As the claim words it, the stock is the former stock plus the quantity of the item
  that names the product. Order 2 of \<open>shop_two_lines\<close> has two items of one unit each for
  product 1, whose stock is 3; deleting the order leaves stock 5, not 4.
\<close>

theorem delete_order_stock_counterexample:
  "OrderItem_findAll shop_two_lines 2 =
     [\<lparr>item_id = 2, orderId = 2, item_productId = 1, item_quantity = 1, item_price = 10\<rparr>,
      \<lparr>item_id = 3, orderId = 2, item_productId = 1, item_quantity = 1, item_price = 10\<rparr>] \<and>
   products shop_two_lines 1 = Some \<lparr>price = 10, stock = 3\<rparr> \<and>
   fst (delete_order 2 shop_two_lines) = [(200, DeletedJson ''Order Deleted'' 1)] \<and>
   products (snd (delete_order 2 shop_two_lines)) 1 = Some \<lparr>price = 10, stock = 5\<rparr> \<and>
   (5::int) \<noteq> 3 + 1"
  by (simp add: shop_two_lines_def shop_def post_order_def delete_order_def Let_def
        Order_findByPk_def OrderItem_findAll_def Product_findByPk_def Product_save_def
        Order_create_def OrderItem_create_def OrderItem_destroy_def Order_destroy_def
        User_findByPk_def sendEmail_def)

subsection \<open>Deleting an order that does not exist\<close>

text \<open>
  Claim C5. Deleting an order id that no Order row carries answers 404 "Order not found"
  and leaves the whole store as it was: no Order, no OrderItem and no stock changes.
\<close>

theorem delete_order_absent:
  assumes "oid \<notin> order_id ` set (orders s)"
  shows "delete_order oid s = ([(404, ErrorJson ''Order not found'')], s)"
  using assms by (simp add: delete_order_def findByPk_None_iff [symmetric] Let_def)

theorem delete_order_absent_witness:
  "2 \<notin> order_id ` set (orders shop) \<and>
   delete_order 2 shop = ([(404, ErrorJson ''Order not found'')], shop)"
proof -
  have h: "2 \<notin> order_id ` set (orders shop)" by (simp add: shop_def)
  from delete_order_absent [OF h] h show ?thesis by simp
qed

subsection \<open>No negative stock\<close>

text \<open>
  Claim C6, amended. From a store in which no product has a negative stock and no
  OrderItem a negative quantity, any sequence of requests (list, get, create, update of
  status, delete, list by user) whose create requests carry no negative quantity leaves
  a store with the same two properties.
\<close>

theorem stock_never_negative:
  assumes "stock_ok s" and "quantities_ok s" and "\<forall>r \<in> set rs. request_ok r"
  shows "stock_ok (run rs s) \<and> quantities_ok (run rs s)"
  using assms
proof (induction rs arbitrary: s)
  case Nil
  then show ?case by simp
next
  case (Cons r rs)
  from Cons.prems have "stock_ok (snd (handle r s)) \<and> quantities_ok (snd (handle r s))"
    by (intro handle_invariant) simp_all
  with Cons.IH [of "snd (handle r s)"] Cons.prems(3) show ?case by simp
qed

theorem stock_never_negative_witness:
  "products (run [CreateOrder 7 ''ann@example.org'' [\<lparr>productId = 1, quantity = 2\<rparr>],
                  DeleteOrder 1] shop) 1 = Some \<lparr>price = 10, stock = 6\<rparr> \<and>
   stock_ok (run [CreateOrder 7 ''ann@example.org'' [\<lparr>productId = 1, quantity = 2\<rparr>],
                  DeleteOrder 1] shop)"
proof -
  have a: "stock_ok shop"
    by (simp add: stock_ok_def shop_def)
  have b: "quantities_ok shop"
    by (simp add: quantities_ok_def shop_def)
  have c: "\<forall>r \<in> set [CreateOrder 7 ''ann@example.org'' [\<lparr>productId = 1, quantity = 2\<rparr>],
                       DeleteOrder 1]. request_ok r"
    by simp
  have d: "products (run [CreateOrder 7 ''ann@example.org'' [\<lparr>productId = 1, quantity = 2\<rparr>],
                  DeleteOrder 1] shop) 1 = Some \<lparr>price = 10, stock = 6\<rparr>"
    by (simp add: shop_def post_order_def delete_order_def Let_def
        Order_findByPk_def OrderItem_findAll_def Product_findByPk_def Product_save_def
        Order_create_def OrderItem_create_def OrderItem_destroy_def Order_destroy_def
        User_findByPk_def sendEmail_def)
  from stock_never_negative [OF a b c] d show ?thesis by simp
qed

text \<open>
  As the claim words it, a non-negative stock before is enough. From \<open>shop\<close>, where no
  stock is negative: a create request for minus five units of product 1 passes the stock
  check and is stored as order 2, a second one takes all ten units, and deleting order 2
  then adds minus five to a stock of zero.
\<close>

theorem stock_negative_counterexample:
  "stock_ok shop \<and>
   products (run [CreateOrder 7 ''ann@example.org'' [\<lparr>productId = 1, quantity = - 5\<rparr>],
                  CreateOrder 7 ''ann@example.org'' [\<lparr>productId = 1, quantity = 10\<rparr>],
                  DeleteOrder 2] shop) 1 = Some \<lparr>price = 10, stock = - 5\<rparr> \<and>
   \<not> stock_ok (run [CreateOrder 7 ''ann@example.org'' [\<lparr>productId = 1, quantity = - 5\<rparr>],
                    CreateOrder 7 ''ann@example.org'' [\<lparr>productId = 1, quantity = 10\<rparr>],
                    DeleteOrder 2] shop)"
proof -
  let ?rs = "[CreateOrder 7 ''ann@example.org'' [\<lparr>productId = 1, quantity = - 5\<rparr>],
              CreateOrder 7 ''ann@example.org'' [\<lparr>productId = 1, quantity = 10\<rparr>],
              DeleteOrder 2]"
  have a: "stock_ok shop"
    by (simp add: stock_ok_def shop_def)
  have d: "products (run ?rs shop) 1 = Some \<lparr>price = 10, stock = - 5\<rparr>"
    by (simp add: shop_def post_order_def delete_order_def Let_def
        Order_findByPk_def OrderItem_findAll_def Product_findByPk_def Product_save_def
        Order_create_def OrderItem_create_def OrderItem_destroy_def Order_destroy_def
        User_findByPk_def sendEmail_def)
  from d have "\<not> stock_ok (run ?rs shop)"
    unfolding stock_ok_def by force
  with a d show ?thesis by simp
qed

subsection \<open>Items whose product does not exist\<close>

text \<open>
  Claim C7. A create request behaves exactly as the same request without the items whose
  product does not exist: the same responses and the same store, hence no error, no
  charge and no stock change on their account. And no OrderItem naming a product that
  does not exist is added.
\<close>

theorem post_order_skips_missing:
  "post_order uid userEmail prods s =
     post_order uid userEmail (filter (\<lambda>p. products s (productId p) \<noteq> None) prods) s \<and>
   item_productId ` set (orderItems (snd (post_order uid userEmail prods s))) \<subseteq>
     item_productId ` set (orderItems s) \<union> dom (products s)"
proof
  let ?ex = "filter (\<lambda>p. products s (productId p) \<noteq> None) prods"
  have r: "reserve_stock ?ex 0 s = reserve_stock prods 0 s"
    by (rule reserve_stock_existing) simp
  obtain res s1 where rs: "reserve_stock prods 0 s = (res, s1)"
    by (cases "reserve_stock prods 0 s")
  from reserve_stock_dom [of prods 0 s] rs
  have dom1: "\<And>pid. (products s1 pid = None) = (products s pid = None)" by simp
  show "post_order uid userEmail prods s = post_order uid userEmail ?ex s"
  proof (cases res)
    case (Inl resp)
    with r rs show ?thesis by (simp add: post_order_def)
  next
    case (Inr t)
    have "\<And>st pid. (products (snd (Order_create uid t st s1)) pid = None) =
                    (products s pid = None)"
      using dom1 by (simp add: Order_create_def Let_def)
    from create_items_existing [OF this] Inr r rs show ?thesis
      by (simp add: post_order_def Let_def split_beta)
  qed
  show "item_productId ` set (orderItems (snd (post_order uid userEmail prods s))) \<subseteq>
        item_productId ` set (orderItems s) \<union> dom (products s)"
  proof (cases res)
    case (Inl resp)
    with rs reserve_stock_keeps [of prods 0 s] show ?thesis
      by (auto simp: post_order_def)
  next
    case (Inr t)
    let ?s2 = "snd (Order_create uid t ''pending'' s1)"
    have "item_productId ` set (orderItems (create_items (next_order_id s1) prods ?s2)) \<subseteq>
          item_productId ` set (orderItems ?s2) \<union> dom (products ?s2)"
      by (rule create_items_products)
    moreover have "orderItems ?s2 = orderItems s" "dom (products ?s2) = dom (products s)"
      using rs reserve_stock_keeps [of prods 0 s] dom1
      by (auto simp: Order_create_def Let_def dom_def)
    ultimately show ?thesis
      using Inr rs
      by (simp add: post_order_def Let_def split_beta Order_create_def sendEmail_def)
  qed
qed

theorem post_order_skips_missing_witness:
  "post_order 7 ''ann@example.org''
     [\<lparr>productId = 9, quantity = 4\<rparr>, \<lparr>productId = 1, quantity = 3\<rparr>] shop =
   post_order 7 ''ann@example.org'' [\<lparr>productId = 1, quantity = 3\<rparr>] shop"
  using post_order_skips_missing
    [of 7 "''ann@example.org''" "[\<lparr>productId = 9, quantity = 4\<rparr>, \<lparr>productId = 1, quantity = 3\<rparr>]" shop]
  by (simp add: shop_def)

subsection \<open>Updating the status\<close>

text \<open>
  Claim C8. For an existing order and any string, the update answers 200 with the order
  carrying that string as its status, the stored order now has that status, the ids,
  owners and totals of all orders are as before, the status of every other order is as
  before, and nothing but the Order table differs in the store. For an absent order it
  answers 404 "Order not found" and the store is as before.
\<close>

theorem put_order_status:
  "(Order_findByPk s oid = Some row \<longrightarrow>
      fst (put_order oid st s) = [(200, OrderRowJson (row\<lparr>status := st\<rparr>))] \<and>
      Order_findByPk (snd (put_order oid st s)) oid = Some (row\<lparr>status := st\<rparr>) \<and>
      map order_id (orders (snd (put_order oid st s))) = map order_id (orders s) \<and>
      map userId (orders (snd (put_order oid st s))) = map userId (orders s) \<and>
      map totalPrice (orders (snd (put_order oid st s))) = map totalPrice (orders s) \<and>
      map status (orders (snd (put_order oid st s))) =
        map (\<lambda>r. if order_id r = oid then st else status r) (orders s) \<and>
      snd (put_order oid st s) = s\<lparr>orders := orders (snd (put_order oid st s))\<rparr>) \<and>
   (Order_findByPk s oid = None \<longrightarrow>
      put_order oid st s = ([(404, ErrorJson ''Order not found'')], s))"
proof (intro conjI impI)
  assume found: "Order_findByPk s oid = Some row"
  then have put: "put_order oid st s =
      ([(200, OrderRowJson (row\<lparr>status := st\<rparr>))], Order_save_status oid st s)"
    by (simp add: put_order_def)
  show "fst (put_order oid st s) = [(200, OrderRowJson (row\<lparr>status := st\<rparr>))]"
    by (simp add: put)
  show "Order_findByPk (snd (put_order oid st s)) oid = Some (row\<lparr>status := st\<rparr>)"
    using found by (simp add: put Order_save_status_def Order_findByPk_def find_save_status)
  show "map order_id (orders (snd (put_order oid st s))) = map order_id (orders s)"
    by (simp add: put Order_save_status_def comp_def if_distrib cong: if_cong)
  show "map userId (orders (snd (put_order oid st s))) = map userId (orders s)"
    by (simp add: put Order_save_status_def comp_def if_distrib cong: if_cong)
  show "map totalPrice (orders (snd (put_order oid st s))) = map totalPrice (orders s)"
    by (simp add: put Order_save_status_def comp_def if_distrib cong: if_cong)
  show "map status (orders (snd (put_order oid st s))) =
        map (\<lambda>r. if order_id r = oid then st else status r) (orders s)"
    by (simp add: put Order_save_status_def comp_def if_distrib cong: if_cong)
  show "snd (put_order oid st s) = s\<lparr>orders := orders (snd (put_order oid st s))\<rparr>"
    by (simp add: put Order_save_status_def)
next
  assume "Order_findByPk s oid = None"
  then show "put_order oid st s = ([(404, ErrorJson ''Order not found'')], s)"
    by (simp add: put_order_def)
qed

theorem put_order_status_witness:
  "Order_findByPk shop 1 =
     Some \<lparr>order_id = 1, userId = 7, totalPrice = 30, status = ''pending''\<rparr> \<and>
   fst (put_order 1 ''no such status'' shop) =
     [(200, OrderRowJson
        \<lparr>order_id = 1, userId = 7, totalPrice = 30, status = ''no such status''\<rparr>)] \<and>
   orders (snd (put_order 1 ''no such status'' shop)) =
     [\<lparr>order_id = 1, userId = 7, totalPrice = 30, status = ''no such status''\<rparr>] \<and>
   Order_findByPk shop 5 = None \<and>
   put_order 5 ''shipped'' shop = ([(404, ErrorJson ''Order not found'')], shop)"
proof -
  have a: "Order_findByPk shop 1 =
      Some \<lparr>order_id = 1, userId = 7, totalPrice = 30, status = ''pending''\<rparr>"
    by (simp add: Order_findByPk_def shop_def)
  have b: "Order_findByPk shop 5 = None"
    by (simp add: Order_findByPk_def shop_def)
  have c: "orders (snd (put_order 1 ''no such status'' shop)) =
     [\<lparr>order_id = 1, userId = 7, totalPrice = 30, status = ''no such status''\<rparr>]"
    by (simp add: put_order_def Order_findByPk_def Order_save_status_def shop_def)
  from put_order_status [of shop 1 _ "''no such status''"]
       put_order_status [of shop 5 _ "''shipped''"] a b c
  show ?thesis by simp
qed

subsection \<open>Listing all orders\<close>

text \<open>
  Claim C9. When the query returns a collection, empty or not, the handler answers 200
  with it; as long as the query's result is not null the 404 "No orders found" call is
  never made. On the store of this file the query returns one view per Order row, so
  the handler answers 200 with all orders.
\<close>

theorem get_orders_404_unreachable:
  "get_orders_respond (Some rows) = [(200, OrdersJson rows)] \<and>
   (found \<noteq> None \<longrightarrow>
      (404, ErrorJson ''No orders found'') \<notin> set (get_orders_respond found)) \<and>
   fst (get_orders s) = [(200, OrdersJson (map (include_view False s) (orders s)))] \<and>
   map view_order (map (include_view False s) (orders s)) = orders s"
  by (auto simp: get_orders_respond_def get_orders_def Order_findAll_include_def
        view_order_include_view comp_def split: option.splits)

theorem get_orders_404_unreachable_witness:
  "Some [] \<noteq> (None :: order_view list option) \<and>
   get_orders_respond (Some []) = [(200, OrdersJson [])] \<and>
   (404, ErrorJson ''No orders found'') \<notin> set (get_orders_respond (Some []))"
  using get_orders_404_unreachable [of "[]" "Some []"] by simp

subsection \<open>Creating an order with no items\<close>

text \<open>
  Claim C10. A create request with an empty item list answers 201 and appends one Order
  with total price 0 and status "pending"; it creates no OrderItem and changes no
  product.
\<close>

theorem post_order_empty:
  "map fst (fst (post_order uid userEmail [] s)) = [201] \<and>
   orders (snd (post_order uid userEmail [] s)) =
     orders s @
     [\<lparr>order_id = next_order_id s, userId = uid, totalPrice = 0, status = ''pending''\<rparr>] \<and>
   orderItems (snd (post_order uid userEmail [] s)) = orderItems s \<and>
   products (snd (post_order uid userEmail [] s)) = products s"
  by (simp add: post_order_def Order_create_def sendEmail_def Let_def)

end
